theory Spec2Isabelle
  imports Complex_Main
begin

section \<open>Training a Fast R-CNN network on several GPUs (lib/fast\_rcnn/train.py)\<close>

text \<open>
  The module is Python 2. Its integers are unbounded and are modelled by \<open>int\<close>; Python's
  \<open>%\<close> on integers is floored, as \<open>mod\<close> on \<open>int\<close> is, and raises
  \<open>ZeroDivisionError\<close> on a zero divisor, which the model writes out. Exceptions are values of
  the type \<open>error\<close>; a function that can raise returns a sum with the error on the left.
  \<open>AssertionError\<close> carries the message of the \<open>assert\<close> statement (empty when it has
  none), and \<open>CaffeError\<close> stands for any failure inside the Caffe library, which is not part
  of this module.

  Floating-point numbers are kept abstract. The scores and thresholds of the data set
  filter are values of an arbitrary linear order \<open>'r\<close>, and the float division of two image
  sides is a parameter \<open>fdiv\<close>. The elements of a parameter tensor are values of an
  arbitrary type \<open>'a\<close> that has a product and a sum (no law is assumed of either), standing
  for the element operations of the tensor library.
\<close>

datatype error =
    AssertionError string
  | ZeroDivisionError
  | ValueError
  | TypeError
  | KeyError
  | IndexError
  | CaffeError

subsection \<open>Configuration (cfg.TRAIN) and the solver's settings\<close>

record 'r train_cfg =
  BBOX_REG :: bool
  HAS_RPN :: bool
  BBOX_NORMALIZE_TARGETS :: bool
  BBOX_NORMALIZE_TARGETS_PRECOMPUTED :: bool
  IMS_PER_BATCH :: int
  REAL_BATCH_SIZE :: int
  SNAPSHOT_INFIX :: string
  SNAPSHOT_ITERS :: int
  FG_THRESH :: 'r
  BG_THRESH_HI :: 'r
  BG_THRESH_LO :: 'r
  MIN_IM_RATIO :: 'r

subsection \<open>filter\_roidb\<close>

record 'r roidb_entry =
  max_overlaps :: "'r list"
  width :: int
  height :: int

text \<open>
  \<open>np.where(c)[0]\<close> is the list of the indices at which the condition holds.
\<close>

definition np_where :: "('r \<Rightarrow> bool) \<Rightarrow> 'r list \<Rightarrow> nat list" where
  "np_where c xs = filter (\<lambda>i. c (xs ! i)) [0..<length xs]"

text \<open>
  \<open>is_valid\<close>: the quotient \<open>min(h, w) / float(max(h, w))\<close> is computed for every entry, and
  raises when the larger side is zero.
\<close>

definition is_valid ::
  "(int \<Rightarrow> int \<Rightarrow> 'r::linorder) \<Rightarrow> 'r train_cfg \<Rightarrow> 'r roidb_entry \<Rightarrow> error + bool" where
  "is_valid fdiv cfg entry =
     (let overlaps = max_overlaps entry;
          fg_inds = np_where (\<lambda>v. FG_THRESH cfg \<le> v) overlaps;
          bg_inds = np_where (\<lambda>v. v < BG_THRESH_HI cfg \<and> BG_THRESH_LO cfg \<le> v) overlaps;
          valid = (0 < length fg_inds \<or> 0 < length bg_inds);
          w = width entry;
          h = height entry
      in if max h w = 0 then Inl ZeroDivisionError
         else Inr (MIN_IM_RATIO cfg < fdiv (min h w) (max h w) \<and> valid))"

text \<open>
  The list comprehension \<open>[entry for entry in roidb if is_valid(entry)]\<close> visits the
  entries in order; the first entry on which \<open>is_valid\<close> raises ends the call.
\<close>

fun filter_roidb ::
  "(int \<Rightarrow> int \<Rightarrow> 'r::linorder) \<Rightarrow> 'r train_cfg \<Rightarrow> 'r roidb_entry list
     \<Rightarrow> error + 'r roidb_entry list" where
  "filter_roidb fdiv cfg [] = Inr []"
| "filter_roidb fdiv cfg (entry # roidb) =
     (case is_valid fdiv cfg entry of
        Inl e \<Rightarrow> Inl e
      | Inr keep \<Rightarrow>
          (case filter_roidb fdiv cfg roidb of
             Inl e \<Rightarrow> Inl e
           | Inr filtered \<Rightarrow> Inr (if keep then entry # filtered else filtered)))"

text \<open>The retention rule in the words of the specification, with counts of scores.\<close>

definition fg_count :: "'r::linorder train_cfg \<Rightarrow> 'r roidb_entry \<Rightarrow> nat" where
  "fg_count cfg entry = length (filter (\<lambda>v. FG_THRESH cfg \<le> v) (max_overlaps entry))"

definition bg_count :: "'r::linorder train_cfg \<Rightarrow> 'r roidb_entry \<Rightarrow> nat" where
  "bg_count cfg entry =
     length (filter (\<lambda>v. BG_THRESH_LO cfg \<le> v \<and> v < BG_THRESH_HI cfg) (max_overlaps entry))"

definition retained ::
  "(int \<Rightarrow> int \<Rightarrow> 'r::linorder) \<Rightarrow> 'r train_cfg \<Rightarrow> 'r roidb_entry \<Rightarrow> bool" where
  "retained fdiv cfg entry \<longleftrightarrow>
     (0 < fg_count cfg entry \<or> 0 < bg_count cfg entry) \<and>
     MIN_IM_RATIO cfg < fdiv (min (height entry) (width entry)) (max (height entry) (width entry))"

subsection \<open>Formatting and paths\<close>

text \<open>
  \<open>'{:d}'.format(n)\<close> and \<open>'{}'.format(n)\<close> write an integer in decimal, with a minus sign
  when it is negative.
\<close>

definition digit_char :: "nat \<Rightarrow> char" where
  "digit_char d = ''0123456789'' ! d"

fun str_nat :: "nat \<Rightarrow> string" where
  "str_nat n = (if n < 10 then [digit_char n] else str_nat (n div 10) @ [digit_char (n mod 10)])"

declare str_nat.simps [simp del]

definition format_d :: "int \<Rightarrow> string" where
  "format_d i = (if i < 0 then CHR ''-'' # str_nat (nat (- i)) else str_nat (nat i))"

text \<open>\<open>os.path.join(a, b)\<close> of posixpath, for two components.\<close>

definition path_join :: "string \<Rightarrow> string \<Rightarrow> string" where
  "path_join a b =
     (if b \<noteq> [] \<and> hd b = CHR ''/'' then b
      else if a = [] \<or> last a = CHR ''/'' then a @ b
      else a @ ''/'' @ b)"

subsection \<open>The solver, its network and the files it writes\<close>

text \<open>
  A parameter group of the network is the pair of its weight tensor (one row per output
  dimension, as in the fully connected layer \<open>bbox_pred\<close>) and its bias vector.
  \<open>net.params\<close> is a dictionary from layer names to parameter groups. The state of one
  training process is the solver's iteration counter, the live parameters, and the files
  this process has written so far, each with the parameter set that was saved.
\<close>

type_synonym 'a layer = "'a list list \<times> 'a list"

type_synonym 'a net = "string \<rightharpoonup> 'a layer"

record 'a world =
  iter :: int
  params :: "'a net"
  written :: "(string \<times> 'a net) list"

record solver_param =
  iter_size :: int
  layer_wise_reduce :: bool
  snapshot_prefix :: string
  display :: int

text \<open>
  The Caffe library is outside this module. What the module needs of it is taken as a
  record of parameters: reading a solver definition (\<open>None\<close> when Caffe rejects it), the
  initial parameters of the network, loading pretrained weights (\<open>None\<close> on failure), the
  effect of one SGD update on the parameters, and whether a file can be written.
  \<open>solver.step(1)\<close> adds one to the iteration counter.
\<close>

record 'a caffe =
  load_solver :: "string \<Rightarrow> solver_param option"
  initial_net :: "'a net"
  copy_from :: "string \<Rightarrow> 'a net \<Rightarrow> 'a net option"
  sgd_update :: "'a net \<Rightarrow> 'a net"
  writable :: "string \<Rightarrow> bool"

definition solver_step :: "'a caffe \<Rightarrow> 'a world \<Rightarrow> 'a world" where
  "solver_step env w = w\<lparr>iter := iter w + 1, params := sgd_update env (params w)\<rparr>"

definition net_save :: "'a caffe \<Rightarrow> string \<Rightarrow> 'a world \<Rightarrow> (error \<times> 'a world) + 'a world" where
  "net_save env path w =
     (if writable env path then Inr (w\<lparr>written := written w @ [(path, params w)]\<rparr>)
      else Inl (CaffeError, w))"

subsection \<open>Array arithmetic\<close>

text \<open>
  An element-wise operation of numpy on two one-dimensional operands broadcasts an
  operand of length one and raises \<open>ValueError\<close> (here \<open>None\<close>) on any other mismatch of
  lengths. The same rule, applied to the rows of a matrix and a column
  \<open>stds[:, np.newaxis]\<close>, gives the product of the weights. Assigning to \<open>data[...]\<close>
  broadcasts the value to the shape of the target, or raises.
\<close>

definition np_binop :: "('b \<Rightarrow> 'c \<Rightarrow> 'd) \<Rightarrow> 'b list \<Rightarrow> 'c list \<Rightarrow> 'd list option" where
  "np_binop f xs ys =
     (if length xs = length ys then Some (map2 f xs ys)
      else if length ys = 1 then Some (map (\<lambda>x. f x (hd ys)) xs)
      else if length xs = 1 then Some (map (\<lambda>y. f (hd xs) y) ys)
      else None)"

definition np_assign :: "nat \<Rightarrow> 'b list \<Rightarrow> 'b list option" where
  "np_assign n xs =
     (if length xs = n then Some xs
      else if length xs = 1 then Some (replicate n (hd xs))
      else None)"

definition scale_row :: "'a::{times,plus} list \<Rightarrow> 'a \<Rightarrow> 'a list" where
  "scale_row row s = map (\<lambda>x. x * s) row"

subsection \<open>SolverWrapper\<close>

record ('a, 'r) solver_wrapper =
  output_dir :: string
  rank :: int
  bbox_means :: "'a list option"
  bbox_stds :: "'a list option"
  solver_params :: solver_param
  layer_roidb :: "'r roidb_entry list"

text \<open>
  \<open>SolverWrapper.__init__\<close>. \<open>caffe.solver_count()\<close> is the number of solvers that
  \<open>train_net\<close> has set, passed here as \<open>solver_count\<close>. The attributes \<open>bbox_means\<close> and
  \<open>bbox_stds\<close> are set only when \<open>cfg.TRAIN.BBOX_REG\<close> holds. The solver definition is read
  twice from the same file (by \<open>caffe.SGDSolver\<close> and by \<open>text_format.Merge\<close>); both
  readings are \<open>load_solver\<close>. The collective \<open>nccl.bcast()\<close> is opaque and leaves the
  parameters of this process as Caffe set them up.
\<close>

definition batch_message :: "int \<Rightarrow> int \<Rightarrow> string" where
  "batch_message n m = format_d n @ '' vs '' @ format_d m"

definition SolverWrapper_init ::
  "'a caffe \<Rightarrow> 'r train_cfg \<Rightarrow> int \<Rightarrow> string \<Rightarrow> 'r roidb_entry list \<Rightarrow> string \<Rightarrow> int
     \<Rightarrow> 'a list option \<Rightarrow> 'a list option \<Rightarrow> string option
     \<Rightarrow> error + (('a, 'r) solver_wrapper \<times> 'a world)" where
  "SolverWrapper_init env cfg solver_count solver_prototxt roidb out_dir rnk means stds
       pretrained_model =
     (if HAS_RPN cfg \<and> BBOX_REG cfg \<and> BBOX_NORMALIZE_TARGETS cfg
         \<and> \<not> BBOX_NORMALIZE_TARGETS_PRECOMPUTED cfg
      then Inl (AssertionError [])
      else
        (case load_solver env solver_prototxt of
           None \<Rightarrow> Inl CaffeError
         | Some sp \<Rightarrow>
             if solver_count * IMS_PER_BATCH cfg * iter_size sp \<noteq> REAL_BATCH_SIZE cfg
             then Inl (AssertionError
                    (batch_message (solver_count * IMS_PER_BATCH cfg * iter_size sp)
                       (REAL_BATCH_SIZE cfg)))
             else
               (case (case pretrained_model of
                        None \<Rightarrow> Some (initial_net env)
                      | Some file \<Rightarrow> copy_from env file (initial_net env)) of
                  None \<Rightarrow> Inl CaffeError
                | Some net0 \<Rightarrow>
                    if \<not> layer_wise_reduce sp then Inl (AssertionError [])
                    else Inr
                      (\<lparr>output_dir = out_dir, rank = rnk,
                        bbox_means = (if BBOX_REG cfg then means else None),
                        bbox_stds = (if BBOX_REG cfg then stds else None),
                        solver_params = sp, layer_roidb = roidb\<rparr>,
                       \<lparr>iter = 0, params = net0, written = []\<rparr>))))"

text \<open>
  The block of \<open>snapshot\<close> that rescales the live parameters of \<open>bbox_pred\<close> in place:
  first the weights, then the biases. A statement that raises leaves the assignments
  made before it in place.
\<close>

definition rescale_bbox_pred ::
  "('a::{times,plus}, 'r) solver_wrapper \<Rightarrow> 'a world \<Rightarrow> (error \<times> 'a world) + 'a world" where
  "rescale_bbox_pred sw w =
     (case params w ''bbox_pred'' of
        None \<Rightarrow> Inl (KeyError, w)
      | Some (orig_0, orig_1) \<Rightarrow>
          (case bbox_stds sw of
             None \<Rightarrow> Inl (TypeError, w)
           | Some stds \<Rightarrow>
               (case Option.bind (np_binop scale_row orig_0 stds) (np_assign (length orig_0)) of
                  None \<Rightarrow> Inl (ValueError, w)
                | Some new_0 \<Rightarrow>
                    let w1 = w\<lparr>params := (params w)(''bbox_pred'' \<mapsto> (new_0, orig_1))\<rparr> in
                    (case np_binop (*) orig_1 stds of
                       None \<Rightarrow> Inl (ValueError, w1)
                     | Some scaled \<Rightarrow>
                         (case bbox_means sw of
                            None \<Rightarrow> Inl (TypeError, w1)
                          | Some means \<Rightarrow>
                              (case Option.bind (np_binop (+) scaled means)
                                      (np_assign (length orig_1)) of
                                 None \<Rightarrow> Inl (ValueError, w1)
                               | Some new_1 \<Rightarrow>
                                   Inr (w1\<lparr>params :=
                                          (params w1)(''bbox_pred'' \<mapsto> (new_0, new_1))\<rparr>)))))))"

definition snapshot_filename :: "'r train_cfg \<Rightarrow> ('a, 'r) solver_wrapper \<Rightarrow> int \<Rightarrow> string" where
  "snapshot_filename cfg sw n =
     (let infx = (if SNAPSHOT_INFIX cfg \<noteq> [] then ''_'' @ SNAPSHOT_INFIX cfg else []);
          filename = snapshot_prefix (solver_params sw) @ infx @ ''_iter_'' @ format_d n
                       @ ''.caffemodel''
      in path_join (output_dir sw) filename)"

definition restore_bbox_pred :: "'a layer option \<Rightarrow> 'a world \<Rightarrow> 'a world" where
  "restore_bbox_pred orig w =
     (case orig of
        None \<Rightarrow> w
      | Some (orig_0, orig_1) \<Rightarrow> w\<lparr>params := (params w)(''bbox_pred'' \<mapsto> (orig_0, orig_1))\<rparr>)"

text \<open>
  \<open>SolverWrapper.snapshot\<close>. An error carries the state in which the exception left the
  process.
\<close>

definition snapshot ::
  "'a caffe \<Rightarrow> 'r train_cfg \<Rightarrow> ('a::{times,plus}, 'r) solver_wrapper \<Rightarrow> 'a world
     \<Rightarrow> (error \<times> 'a world) + (string \<times> 'a world)" where
  "snapshot env cfg sw w =
     (if rank sw \<noteq> 0 then Inl (AssertionError [], w)
      else
        let scale_bbox_params =
              (BBOX_REG cfg \<and> BBOX_NORMALIZE_TARGETS cfg \<and> ''bbox_pred'' \<in> dom (params w));
            orig = params w ''bbox_pred''
        in (case (if scale_bbox_params then rescale_bbox_pred sw w else Inr w) of
              Inl e \<Rightarrow> Inl e
            | Inr w1 \<Rightarrow>
                let filename = snapshot_filename cfg sw (iter w1) in
                (case net_save env filename w1 of
                   Inl e \<Rightarrow> Inl e
                 | Inr w2 \<Rightarrow>
                     Inr (filename,
                          if scale_bbox_params then restore_bbox_pred orig w2 else w2))))"

lemma rescale_bbox_pred_iter: "rescale_bbox_pred sw w = Inr w1 \<Longrightarrow> iter w1 = iter w"
  by (auto simp: rescale_bbox_pred_def Let_def split: option.splits prod.splits)

lemma snapshot_iter: "snapshot env cfg sw w = Inr (filename, w') \<Longrightarrow> iter w' = iter w"
  by (auto simp: snapshot_def net_save_def restore_bbox_pred_def Let_def
      dest: rescale_bbox_pred_iter split: if_splits sum.splits option.splits prod.splits)

text \<open>
  \<open>SolverWrapper.train_model\<close>. The loop carries the state of the process, the iteration of
  the last snapshot and the paths collected so far. The diagnostic line written every
  \<open>10 * display\<close> iterations changes nothing, but its test divides by \<open>10 * display\<close>. In
  \<open>self.rank == 0 and self.solver.iter % cfg.TRAIN.SNAPSHOT_ITERS == 0\<close> the remainder is
  computed on rank 0 only.
\<close>

function train_loop ::
  "'a caffe \<Rightarrow> 'r train_cfg \<Rightarrow> ('a::{times,plus}, 'r) solver_wrapper \<Rightarrow> int
     \<Rightarrow> 'a world \<times> int \<times> string list
     \<Rightarrow> (error \<times> 'a world) + ('a world \<times> int \<times> string list)" where
  "train_loop env cfg sw max_iters (w, last_snapshot_iter, model_paths) =
     (if iter w < max_iters then
        let w1 = solver_step env w in
        if 10 * display (solver_params sw) = 0 then Inl (ZeroDivisionError, w1)
        else if rank sw = 0 then
          (if SNAPSHOT_ITERS cfg = 0 then Inl (ZeroDivisionError, w1)
           else if iter w1 mod SNAPSHOT_ITERS cfg = 0 then
             (case snapshot env cfg sw w1 of
                Inl e \<Rightarrow> Inl e
              | Inr (path, w2) \<Rightarrow>
                  train_loop env cfg sw max_iters (w2, iter w1, model_paths @ [path]))
           else train_loop env cfg sw max_iters (w1, last_snapshot_iter, model_paths))
        else train_loop env cfg sw max_iters (w1, last_snapshot_iter, model_paths)
      else Inr (w, last_snapshot_iter, model_paths))"
  by pat_completeness auto
termination
proof (relation "measure (\<lambda>(env, cfg, sw, max_iters, w, l, ps). nat (max_iters - iter w))")
  show "wf (measure (\<lambda>(env, cfg, sw, max_iters, w, l, ps). nat (max_iters - iter w)))"
    by simp
qed (auto simp: solver_step_def dest!: snapshot_iter)

declare train_loop.simps [simp del]

definition train_model ::
  "'a caffe \<Rightarrow> 'r train_cfg \<Rightarrow> ('a::{times,plus}, 'r) solver_wrapper \<Rightarrow> int \<Rightarrow> 'a world
     \<Rightarrow> (error \<times> 'a world) + (string list \<times> 'a world)" where
  "train_model env cfg sw max_iters w =
     (case train_loop env cfg sw max_iters (w, - 1, []) of
        Inl e \<Rightarrow> Inl e
      | Inr (w1, last_snapshot_iter, model_paths) \<Rightarrow>
          if rank sw = 0 \<and> last_snapshot_iter \<noteq> iter w1 then
            (case snapshot env cfg sw w1 of
               Inl e \<Rightarrow> Inl e
             | Inr (path, w2) \<Rightarrow> Inr (model_paths @ [path], w2))
          else Inr (model_paths, w1))"

subsection \<open>Worker processes and the orchestrator\<close>

text \<open>
  \<open>train_net\<close> is the body of one worker process. Its result here is the outcome of the
  process (the exception that ended it, or the paths and final state) together with the
  values it has put on the queue. \<open>gpus[rank]\<close> raises when the rank is not an index of the
  list of devices.
\<close>

definition train_net ::
  "'a caffe \<Rightarrow> 'r train_cfg \<Rightarrow> string \<Rightarrow> 'r roidb_entry list \<Rightarrow> string \<Rightarrow> 'g list \<Rightarrow> nat
     \<Rightarrow> 'a::{times,plus} list option \<Rightarrow> 'a list option \<Rightarrow> string option \<Rightarrow> int
     \<Rightarrow> (error + (string list \<times> 'a world)) \<times> string list list" where
  "train_net env cfg solver_prototxt roidb out_dir gpus rnk means stds pretrained_model
       max_iters =
     (if length gpus \<le> rnk then (Inl IndexError, [])
      else
        (case SolverWrapper_init env cfg (int (length gpus)) solver_prototxt roidb out_dir
                (int rnk) means stds pretrained_model of
           Inl e \<Rightarrow> (Inl e, [])
         | Inr (sw, w) \<Rightarrow>
             (case train_model env cfg sw max_iters w of
                Inl (e, w') \<Rightarrow> (Inl e, [])
              | Inr (model_paths, w') \<Rightarrow>
                  (Inr (model_paths, w'), if rnk = 0 then [model_paths] else []))))"




subsection \<open>Notions used in the properties\<close>

text \<open>
  The iterations at which rank 0 takes a snapshot, in the words of the specification: from
  iteration \<open>i\<close> up to \<open>m\<close> with interval \<open>n\<close>, every multiple of \<open>n\<close> after \<open>i\<close>, then \<open>m\<close>
  itself unless it is a multiple; when no step is made, the current iteration.
\<close>

definition snapshot_iters :: "int \<Rightarrow> int \<Rightarrow> int \<Rightarrow> int list" where
  "snapshot_iters n i m =
     (if i < m then filter (\<lambda>k. k mod n = 0) [i + 1..m] @ (if m mod n = 0 then [] else [m])
      else [i])"

text \<open>The values written to the snapshot for \<open>bbox_pred\<close>.\<close>

definition rescaled :: "'a::{times,plus} list list \<Rightarrow> 'a list \<Rightarrow> 'a list \<Rightarrow> 'a list \<Rightarrow> 'a layer" where
  "rescaled weight bias stds means =
     (map2 scale_row weight stds, map2 (+) (map2 (*) bias stds) means)"


text \<open>A plain decimal numeral: digits only, not empty, no leading zero.\<close>

definition is_digit :: "char \<Rightarrow> bool" where
  "is_digit c \<longleftrightarrow> c \<in> set ''0123456789''"

definition digit_value :: "char \<Rightarrow> nat" where
  "digit_value c = of_char c - 48"

definition decimal_value :: "string \<Rightarrow> nat" where
  "decimal_value s = foldl (\<lambda>a c. 10 * a + digit_value c) 0 s"

definition plain_decimal :: "string \<Rightarrow> bool" where
  "plain_decimal s \<longleftrightarrow> s \<noteq> [] \<and> list_all is_digit s \<and> (hd s = CHR ''0'' \<longrightarrow> s = ''0'')"

subsection \<open>A small training run\<close>

definition ex_param :: solver_param where
  "ex_param = \<lparr>iter_size = 2, layer_wise_reduce = True, snapshot_prefix = ''model'', display = 20\<rparr>"

definition ex_cfg :: "real train_cfg" where
  "ex_cfg = \<lparr>BBOX_REG = True, HAS_RPN = False, BBOX_NORMALIZE_TARGETS = True,
     BBOX_NORMALIZE_TARGETS_PRECOMPUTED = False, IMS_PER_BATCH = 2, REAL_BATCH_SIZE = 12,
     SNAPSHOT_INFIX = [], SNAPSHOT_ITERS = 4, FG_THRESH = 1 / 2, BG_THRESH_HI = 1 / 2,
     BG_THRESH_LO = 1 / 10, MIN_IM_RATIO = 1 / 10\<rparr>"

definition ex_net :: "int net" where
  "ex_net = [''cls_score'' \<mapsto> ([[7, 8]], [9]), ''bbox_pred'' \<mapsto> ([[1, 2], [3, 4]], [5, 6])]"

definition ex_env :: "int caffe" where
  "ex_env = \<lparr>load_solver = (\<lambda>file. Some ex_param), initial_net = ex_net,
     copy_from = (\<lambda>file net. Some net), sgd_update = (\<lambda>net. net),
     writable = (\<lambda>path. True)\<rparr>"

definition ex_sw :: "(int, real) solver_wrapper" where
  "ex_sw = \<lparr>output_dir = ''out'', rank = 0, bbox_means = Some [10, 20],
     bbox_stds = Some [2, 3], solver_params = ex_param, layer_roidb = []\<rparr>"

definition ex_world :: "int world" where
  "ex_world = \<lparr>iter = 0, params = ex_net, written = []\<rparr>"

definition ex_div :: "int \<Rightarrow> int \<Rightarrow> real" where
  "ex_div a b = real_of_int a / real_of_int b"

definition ex_roidb :: "real roidb_entry list" where
  "ex_roidb =
     [\<lparr>max_overlaps = [7 / 10, 1 / 20], width = 4, height = 3\<rparr>,
      \<lparr>max_overlaps = [1 / 20], width = 4, height = 3\<rparr>,
      \<lparr>max_overlaps = [3 / 10], width = 10, height = 10\<rparr>,
      \<lparr>max_overlaps = [], width = 8, height = 6\<rparr>,
      \<lparr>max_overlaps = [9 / 10], width = 100, height = 5\<rparr>]"




text \<open>The same run on a file system that rejects every write.\<close>

definition ex_env_full :: "int caffe" where
  "ex_env_full = ex_env\<lparr>writable := (\<lambda>path. False)\<rparr>"

section \<open>Properties\<close>

subsection \<open>filter\_roidb\<close>

lemma length_np_where: "length (np_where c xs) = length (filter c xs)"
proof -
  have "map ((!) xs) (np_where c xs) = filter c (map ((!) xs) [0..<length xs])"
    unfolding np_where_def by (simp add: filter_map comp_def)
  then have "length (map ((!) xs) (np_where c xs)) = length (filter c xs)"
    by (simp add: map_nth)
  then show ?thesis by simp
qed

lemma is_valid_retained:
  assumes "max (height entry) (width entry) \<noteq> 0"
  shows "is_valid fdiv cfg entry = Inr (retained fdiv cfg entry)"
proof -
  have fg: "length (np_where (\<lambda>v. FG_THRESH cfg \<le> v) (max_overlaps entry)) = fg_count cfg entry"
    by (simp add: length_np_where fg_count_def)
  have "(\<lambda>v. v < BG_THRESH_HI cfg \<and> BG_THRESH_LO cfg \<le> v) =
        (\<lambda>v. BG_THRESH_LO cfg \<le> v \<and> v < BG_THRESH_HI cfg)"
    by (rule ext) (rule conj_commute)
  then have bg:
    "length (np_where (\<lambda>v. v < BG_THRESH_HI cfg \<and> BG_THRESH_LO cfg \<le> v) (max_overlaps entry))
       = bg_count cfg entry"
    by (simp add: length_np_where bg_count_def)
  from assms show ?thesis
    unfolding is_valid_def Let_def fg bg retained_def by (simp add: conj_commute)
qed

lemma is_valid_raises:
  "max (height entry) (width entry) = 0 \<Longrightarrow> is_valid fdiv cfg entry = Inl ZeroDivisionError"
  by (simp add: is_valid_def Let_def)

lemma filter_roidb_filter:
  assumes "\<forall>entry \<in> set roidb. max (height entry) (width entry) \<noteq> 0"
  shows "filter_roidb fdiv cfg roidb = Inr (filter (retained fdiv cfg) roidb)"
  using assms
proof (induction roidb)
  case Nil
  show ?case by simp
next
  case (Cons entry roidb)
  then have "is_valid fdiv cfg entry = Inr (retained fdiv cfg entry)"
    by (simp add: is_valid_retained)
  with Cons show ?case by simp
qed



text \<open>
  C5. On a collection in which no image has a zero larger side (so that every quotient is
  defined and no division raises), the filtering step returns, in the original order,
  exactly the entries for which the count of scores at or above \<open>FG_THRESH\<close> is positive or
  the count of scores in \<open>[BG_THRESH_LO, BG_THRESH_HI)\<close> is positive, and whose quotient
  \<open>min(height, width) / max(height, width)\<close> exceeds \<open>MIN_IM_RATIO\<close>; every other entry is
  left out.
\<close>

theorem filter_roidb_retains:
  assumes "\<forall>entry \<in> set roidb. max (height entry) (width entry) \<noteq> 0"
  shows "filter_roidb fdiv cfg roidb = Inr (filter (retained fdiv cfg) roidb)"
  using assms by (rule filter_roidb_filter)

theorem filter_roidb_retains_witness:
  "filter_roidb ex_div ex_cfg ex_roidb =
     Inr [\<lparr>max_overlaps = [7 / 10, 1 / 20], width = 4, height = 3\<rparr>,
          \<lparr>max_overlaps = [3 / 10], width = 10, height = 10\<rparr>]"
proof -
  have "\<forall>entry \<in> set ex_roidb. max (height entry) (width entry) \<noteq> 0"
    by (simp add: ex_roidb_def)
  from filter_roidb_retains [OF this, of ex_div ex_cfg] show ?thesis
    by (simp add: ex_roidb_def ex_cfg_def ex_div_def retained_def fg_count_def bg_count_def)
qed

lemma filter_roidb_raises:
  assumes "\<exists>entry \<in> set roidb. max (height entry) (width entry) = 0"
  shows "filter_roidb fdiv cfg roidb = Inl ZeroDivisionError"
  using assms
proof (induction roidb)
  case Nil
  then show ?case by simp
next
  case (Cons entry roidb)
  show ?case
  proof (cases "max (height entry) (width entry) = 0")
    case True
    then show ?thesis by (simp add: is_valid_raises)
  next
    case False
    with Cons show ?thesis by (simp add: is_valid_retained)
  qed
qed

subsection \<open>Decimal formatting\<close>

lemma below_ten:
  "d < (10::nat) \<Longrightarrow> d = 0 \<or> d = 1 \<or> d = 2 \<or> d = 3 \<or> d = 4 \<or> d = 5 \<or> d = 6 \<or> d = 7 \<or> d = 8 \<or> d = 9"
  by arith

lemma digit_char_props:
  assumes "d < 10"
  shows "is_digit (digit_char d)" and "digit_value (digit_char d) = d"
    and "digit_char d = CHR ''0'' \<longleftrightarrow> d = 0"
  using below_ten [OF assms] by (auto simp: digit_char_def is_digit_def digit_value_def)

lemma str_nat_small: "n < 10 \<Longrightarrow> str_nat n = [digit_char n]"
  by (simp add: str_nat.simps)

lemma str_nat_large: "\<not> n < 10 \<Longrightarrow> str_nat n = str_nat (n div 10) @ [digit_char (n mod 10)]"
  by (subst str_nat.simps) simp

lemma str_nat_nonempty: "str_nat n \<noteq> []"
  by (cases "n < 10") (simp_all add: str_nat_small str_nat_large)

lemma str_nat_digits: "list_all is_digit (str_nat n)"
proof (induction n rule: str_nat.induct)
  case (1 n)
  then show ?case
    by (cases "n < 10") (simp_all add: str_nat_small str_nat_large digit_char_props)
qed

lemma str_nat_value: "decimal_value (str_nat n) = n"
proof (induction n rule: str_nat.induct)
  case (1 n)
  show ?case
  proof (cases "n < 10")
    case True
    then show ?thesis by (simp add: str_nat_small decimal_value_def digit_char_props)
  next
    case False
    with 1 have "decimal_value (str_nat (n div 10)) = n div 10" by simp
    with False show ?thesis
      by (simp add: str_nat_large decimal_value_def digit_char_props)
  qed
qed

lemma str_nat_leading: "hd (str_nat n) = CHR ''0'' \<Longrightarrow> n = 0"
proof (induction n rule: str_nat.induct)
  case (1 n)
  show ?case
  proof (cases "n < 10")
    case True
    with "1.prems" show ?thesis by (simp add: str_nat_small digit_char_props)
  next
    case False
    with "1.prems" have "hd (str_nat (n div 10)) = CHR ''0''"
      by (simp add: str_nat_large str_nat_nonempty)
    with 1 False have "n div 10 = 0" by simp
    with False show ?thesis by simp
  qed
qed

lemma str_nat_plain: "plain_decimal (str_nat n)"
  using str_nat_leading [of n]
  by (auto simp: plain_decimal_def str_nat_nonempty str_nat_digits str_nat_small digit_char_def)

lemma format_d_plain:
  "0 \<le> i \<Longrightarrow> plain_decimal (format_d i) \<and> int (decimal_value (format_d i)) = i"
  by (simp add: format_d_def str_nat_plain str_nat_value)

subsection \<open>SolverWrapper.\_\_init\_\_\<close>

lemma batch_message_nonempty: "batch_message n m \<noteq> []"
  by (simp add: batch_message_def)


text \<open>
  C9. In a construction that reaches the batch size check (the assertion on precomputed
  normalization passes and Caffe accepts the solver definition), \<open>SolverWrapper.__init__\<close>
  ends with the assertion error of that check, whose message is \<open>"<product> vs <batch>"\<close>,
  if and only if \<open>solver_count * IMS_PER_BATCH * iter_size\<close> differs from
  \<open>REAL_BATCH_SIZE\<close>; when they are equal the construction goes on with the statements
  after the check.
\<close>

theorem init_batch_size_check:
  assumes "\<not> (HAS_RPN cfg \<and> BBOX_REG cfg \<and> BBOX_NORMALIZE_TARGETS cfg
               \<and> \<not> BBOX_NORMALIZE_TARGETS_PRECOMPUTED cfg)"
    and "load_solver env solver_prototxt = Some sp"
  shows "(SolverWrapper_init env cfg n solver_prototxt roidb out_dir rnk means stds pretrained
            = Inl (AssertionError (batch_message (n * IMS_PER_BATCH cfg * iter_size sp)
                                      (REAL_BATCH_SIZE cfg)))
          \<longleftrightarrow> n * IMS_PER_BATCH cfg * iter_size sp \<noteq> REAL_BATCH_SIZE cfg)
         \<and> (n * IMS_PER_BATCH cfg * iter_size sp = REAL_BATCH_SIZE cfg \<longrightarrow>
              SolverWrapper_init env cfg n solver_prototxt roidb out_dir rnk means stds pretrained
                = (case (case pretrained of
                           None \<Rightarrow> Some (initial_net env)
                         | Some file \<Rightarrow> copy_from env file (initial_net env)) of
                     None \<Rightarrow> Inl CaffeError
                   | Some net0 \<Rightarrow>
                       if \<not> layer_wise_reduce sp then Inl (AssertionError [])
                       else Inr
                         (\<lparr>output_dir = out_dir, rank = rnk,
                           bbox_means = (if BBOX_REG cfg then means else None),
                           bbox_stds = (if BBOX_REG cfg then stds else None),
                           solver_params = sp, layer_roidb = roidb\<rparr>,
                          \<lparr>iter = 0, params = net0, written = []\<rparr>)))"
  using assms batch_message_nonempty [of "n * IMS_PER_BATCH cfg * iter_size sp" "REAL_BATCH_SIZE cfg"]
  by (auto simp: SolverWrapper_init_def split: option.splits)

theorem init_batch_size_check_witness:
  "SolverWrapper_init ex_env ex_cfg 2 ''solver.prototxt'' ex_roidb ''out'' 0
      (Some [10, 20]) (Some [2, 3]) None = Inl (AssertionError ''8 vs 12'')
   \<and> (2 :: int) * IMS_PER_BATCH ex_cfg * iter_size ex_param \<noteq> REAL_BATCH_SIZE ex_cfg
   \<and> SolverWrapper_init ex_env ex_cfg 3 ''solver.prototxt'' ex_roidb ''out'' 0
      (Some [10, 20]) (Some [2, 3]) None = Inr (ex_sw\<lparr>layer_roidb := ex_roidb\<rparr>, ex_world)
   \<and> (3 :: int) * IMS_PER_BATCH ex_cfg * iter_size ex_param = REAL_BATCH_SIZE ex_cfg"
proof -
  have a: "\<not> (HAS_RPN ex_cfg \<and> BBOX_REG ex_cfg \<and> BBOX_NORMALIZE_TARGETS ex_cfg
               \<and> \<not> BBOX_NORMALIZE_TARGETS_PRECOMPUTED ex_cfg)"
    by (simp add: ex_cfg_def)
  have b: "load_solver ex_env ''solver.prototxt'' = Some ex_param" by (simp add: ex_env_def)
  have m: "batch_message 8 12 = ''8 vs 12''"
    by (simp add: batch_message_def format_d_def str_nat.simps digit_char_def)
  from init_batch_size_check [OF a b, of 2 ex_roidb "''out''" 0 "Some [10, 20]" "Some [2, 3]" None]
       init_batch_size_check [OF a b, of 3 ex_roidb "''out''" 0 "Some [10, 20]" "Some [2, 3]" None]
       m
  show ?thesis
    by (simp add: ex_cfg_def ex_param_def ex_env_def ex_sw_def ex_world_def)
qed

subsection \<open>snapshot\<close>

lemma np_binop_same: "length xs = length ys \<Longrightarrow> np_binop f xs ys = Some (map2 f xs ys)"
  by (simp add: np_binop_def)

lemma np_assign_same: "length xs = n \<Longrightarrow> np_assign n xs = Some xs"
  by (simp add: np_assign_def)

lemma rescale_bbox_pred_shapes:
  assumes "params w ''bbox_pred'' = Some (weight, bias)"
    and "bbox_stds sw = Some stds" and "bbox_means sw = Some means"
    and "length stds = length weight" and "length bias = length weight"
    and "length means = length weight"
  shows "rescale_bbox_pred sw w =
           Inr (w\<lparr>params := (params w)(''bbox_pred'' \<mapsto> rescaled weight bias stds means)\<rparr>)"
  using assms
  by (simp add: rescale_bbox_pred_def np_binop_same np_assign_same rescaled_def Let_def)

lemma rescale_bbox_pred_others:
  "rescale_bbox_pred sw w = Inr w1 \<Longrightarrow> k \<noteq> ''bbox_pred'' \<Longrightarrow> params w1 k = params w k"
  by (auto simp: rescale_bbox_pred_def Let_def split: option.splits prod.splits)

lemma rescale_bbox_pred_written:
  "rescale_bbox_pred sw w = Inr w1 \<Longrightarrow> written w1 = written w"
  by (auto simp: rescale_bbox_pred_def Let_def split: option.splits prod.splits)

lemma snapshot_params_restored:
  assumes "snapshot env cfg sw w = Inr (path, w')"
  shows "params w' = params w"
proof -
  have r: "rank sw = 0" using assms by (auto simp: snapshot_def split: if_splits)
  show ?thesis
  proof (cases "BBOX_REG cfg \<and> BBOX_NORMALIZE_TARGETS cfg \<and> ''bbox_pred'' \<in> dom (params w)")
    case True
    then obtain orig where orig: "params w ''bbox_pred'' = Some orig" by auto
    from assms True r obtain w1 where w1: "rescale_bbox_pred sw w = Inr w1"
      and w': "w' = restore_bbox_pred (Some orig) (w1\<lparr>written := written w1 @ [(path, params w1)]\<rparr>)"
      by (auto simp: snapshot_def net_save_def Let_def orig split: sum.splits if_splits)
    have "params w' k = params w k" for k
      using rescale_bbox_pred_others [OF w1, of k] orig
      by (cases orig) (simp add: w' restore_bbox_pred_def)
    then show ?thesis by (rule ext)
  next
    case False
    with assms r show ?thesis
      by (auto simp: snapshot_def net_save_def Let_def split: sum.splits if_splits)
  qed
qed

lemma snapshot_path:
  "snapshot env cfg sw w = Inr (path, w') \<Longrightarrow> path = snapshot_filename cfg sw (iter w)"
  by (auto simp: snapshot_def net_save_def Let_def dest: rescale_bbox_pred_iter
      split: sum.splits if_splits)

text \<open>The equations that evaluate a snapshot of the small training run.\<close>

lemmas ex_eval = snapshot_def rescale_bbox_pred_def net_save_def restore_bbox_pred_def
  np_binop_def np_assign_def scale_row_def snapshot_filename_def path_join_def
  format_d_def str_nat.simps digit_char_def
  ex_param_def ex_cfg_def ex_net_def ex_env_def ex_sw_def ex_world_def Let_def

lemma snapshot_scaled:
  assumes "rank sw = 0" and "BBOX_REG cfg" and "BBOX_NORMALIZE_TARGETS cfg"
    and "params w ''bbox_pred'' = Some (weight, bias)"
    and "bbox_stds sw = Some stds" and "bbox_means sw = Some means"
    and "length stds = length weight" and "length bias = length weight"
    and "length means = length weight"
  shows "snapshot env cfg sw w =
     (if writable env (snapshot_filename cfg sw (iter w))
      then Inr (snapshot_filename cfg sw (iter w),
             w\<lparr>written := written w @
                [(snapshot_filename cfg sw (iter w),
                  (params w)(''bbox_pred'' \<mapsto> rescaled weight bias stds means))]\<rparr>)
      else Inl (CaffeError,
             w\<lparr>params := (params w)(''bbox_pred'' \<mapsto> rescaled weight bias stds means)\<rparr>))"
proof -
  have d: "''bbox_pred'' \<in> dom (params w)" using assms(4) by auto
  have m: "(params w)(''bbox_pred'' \<mapsto> (weight, bias)) = params w"
    using assms(4) by (rule map_upd_triv)
  show ?thesis
    using assms(1-4) d m
    by (simp add: snapshot_def rescale_bbox_pred_shapes [OF assms(4-9)] net_save_def
        restore_bbox_pred_def Let_def)
qed

lemma rescaled_entries:
  assumes "length stds = length weight" and "length bias = length weight"
    and "length means = length weight" and "i < length weight"
  shows "length (fst (rescaled weight bias stds means)) = length weight"
    and "length (snd (rescaled weight bias stds means)) = length bias"
    and "length (fst (rescaled weight bias stds means) ! i) = length (weight ! i)"
    and "j < length (weight ! i) \<Longrightarrow>
           fst (rescaled weight bias stds means) ! i ! j = weight ! i ! j * stds ! i"
    and "snd (rescaled weight bias stds means) ! i = bias ! i * stds ! i + means ! i"
  using assms by (simp_all add: rescaled_def scale_row_def)

text \<open>
  C3. When bounding-box regression and target normalization are enabled and the network
  has a parameter group \<open>bbox_pred\<close> (with statistics of one value per output
  dimension), a snapshot on rank 0 whose file can be written saves, for \<open>bbox_pred\<close>,
  the weights \<open>weight[i][j] * stds[i]\<close> and the biases \<open>bias[i] * stds[i] + means[i]\<close>, where
  \<open>means\<close> and \<open>stds\<close> are the statistics held by the wrapper; every other parameter group is
  saved with its live value.
\<close>

theorem snapshot_persists_rescaled:
  assumes "rank sw = 0" and "BBOX_REG cfg" and "BBOX_NORMALIZE_TARGETS cfg"
    and "params w ''bbox_pred'' = Some (weight, bias)"
    and "bbox_stds sw = Some stds" and "bbox_means sw = Some means"
    and "length stds = length weight" and "length bias = length weight"
    and "length means = length weight"
    and "writable env (snapshot_filename cfg sw (iter w))"
  shows "\<exists>w' saved weight' bias'.
           snapshot env cfg sw w = Inr (snapshot_filename cfg sw (iter w), w') \<and>
           written w' = written w @ [(snapshot_filename cfg sw (iter w), saved)] \<and>
           saved ''bbox_pred'' = Some (weight', bias') \<and>
           length weight' = length weight \<and> length bias' = length bias \<and>
           (\<forall>i < length weight.
              length (weight' ! i) = length (weight ! i) \<and>
              (\<forall>j < length (weight ! i). weight' ! i ! j = weight ! i ! j * stds ! i) \<and>
              bias' ! i = bias ! i * stds ! i + means ! i) \<and>
           (\<forall>name. name \<noteq> ''bbox_pred'' \<longrightarrow> saved name = params w name)"
proof -
  let ?path = "snapshot_filename cfg sw (iter w)"
  let ?new = "rescaled weight bias stds means"
  let ?saved = "(params w)(''bbox_pred'' \<mapsto> ?new)"
  let ?w' = "w\<lparr>written := written w @ [(?path, ?saved)]\<rparr>"
  have run: "snapshot env cfg sw w = Inr (?path, ?w')"
    using assms(10) by (simp add: snapshot_scaled [OF assms(1-9)])
  have entries: "\<forall>i < length weight.
      length (fst ?new ! i) = length (weight ! i) \<and>
      (\<forall>j < length (weight ! i). fst ?new ! i ! j = weight ! i ! j * stds ! i) \<and>
      snd ?new ! i = bias ! i * stds ! i + means ! i"
    using assms(7-9) by (simp add: rescaled_def scale_row_def)
  have lens: "length (fst ?new) = length weight" "length (snd ?new) = length bias"
    using assms(7-9) by (simp_all add: rescaled_def)
  have "snapshot env cfg sw w = Inr (?path, ?w') \<and>
        written ?w' = written w @ [(?path, ?saved)] \<and>
        ?saved ''bbox_pred'' = Some (fst ?new, snd ?new) \<and>
        length (fst ?new) = length weight \<and> length (snd ?new) = length bias \<and>
        (\<forall>i < length weight.
           length (fst ?new ! i) = length (weight ! i) \<and>
           (\<forall>j < length (weight ! i). fst ?new ! i ! j = weight ! i ! j * stds ! i) \<and>
           snd ?new ! i = bias ! i * stds ! i + means ! i) \<and>
        (\<forall>name. name \<noteq> ''bbox_pred'' \<longrightarrow> ?saved name = params w name)"
    using run entries lens by simp
  then show ?thesis by (intro exI)
qed

theorem snapshot_persists_rescaled_witness:
  "snapshot ex_env ex_cfg ex_sw ex_world =
     Inr (''out/model_iter_0.caffemodel'',
          ex_world\<lparr>written := [(''out/model_iter_0.caffemodel'',
            [''cls_score'' \<mapsto> ([[7, 8]], [9]),
             ''bbox_pred'' \<mapsto> ([[1 * 2, 2 * 2], [3 * 3, 4 * 3]], [5 * 2 + 10, 6 * 3 + 20])])]\<rparr>)"
proof -
  have "rank ex_sw = 0" "BBOX_REG ex_cfg" "BBOX_NORMALIZE_TARGETS ex_cfg"
    "params ex_world ''bbox_pred'' = Some ([[1, 2], [3, 4]], [5, 6])"
    "bbox_stds ex_sw = Some [2, 3]" "bbox_means ex_sw = Some [10, 20]"
    "length [2, 3 :: int] = length [[1, 2], [3, 4 :: int]]"
    "length [5, 6 :: int] = length [[1, 2], [3, 4 :: int]]"
    "length [10, 20 :: int] = length [[1, 2], [3, 4 :: int]]"
    "writable ex_env (snapshot_filename ex_cfg ex_sw (iter ex_world))"
    by (simp_all add: ex_eval)
  from snapshot_persists_rescaled [OF this] show ?thesis
    by (simp add: ex_eval)
qed

text \<open>
  C2. Whenever \<open>snapshot\<close> returns normally, the live weights and biases of \<open>bbox_pred\<close>
  after the call equal their values before it; indeed all live parameters and the
  iteration counter are unchanged. This covers the calls in which the parameters were
  rescaled for the save: the saved copies are written back.
\<close>

theorem snapshot_restores_bbox_pred:
  assumes "snapshot env cfg sw w = Inr (path, w')"
  shows "params w' ''bbox_pred'' = params w ''bbox_pred'' \<and> params w' = params w \<and> iter w' = iter w"
  using snapshot_params_restored [OF assms] snapshot_iter [OF assms] by simp

theorem snapshot_restores_bbox_pred_witness:
  "snapshot ex_env ex_cfg ex_sw ex_world =
     Inr (''out/model_iter_0.caffemodel'',
          ex_world\<lparr>written := [(''out/model_iter_0.caffemodel'',
            [''cls_score'' \<mapsto> ([[7, 8]], [9]),
             ''bbox_pred'' \<mapsto> ([[2, 4], [9, 12]], [20, 38])])]\<rparr>)
   \<and> params (ex_world\<lparr>written := [(''out/model_iter_0.caffemodel'',
            [''cls_score'' \<mapsto> ([[7, 8]], [9]),
             ''bbox_pred'' \<mapsto> ([[2, 4], [9, 12]], [20, 38])])]\<rparr>) ''bbox_pred''
       = Some ([[1, 2], [3, 4]], [5, 6])"
proof -
  have run: "snapshot ex_env ex_cfg ex_sw ex_world =
     Inr (''out/model_iter_0.caffemodel'',
          ex_world\<lparr>written := [(''out/model_iter_0.caffemodel'',
            [''cls_score'' \<mapsto> ([[7, 8]], [9]),
             ''bbox_pred'' \<mapsto> ([[2, 4], [9, 12]], [20, 38])])]\<rparr>)"
    by (simp add: ex_eval)
  have "params ex_world ''bbox_pred'' = Some ([[1, 2], [3, 4]], [5, 6])"
    by (simp add: ex_world_def ex_net_def)
  with snapshot_restores_bbox_pred [OF run] run show ?thesis by simp
qed

text \<open>
  C4 as stated (the live parameters are restored also when writing the file fails) does
  not hold: \<open>snapshot\<close> has no handler around \<open>net.save\<close>, so the exception leaves the call
  before the statements that restore the parameters. In the small training run with a
  file system that rejects the write, \<open>bbox_pred\<close> is left rescaled.
\<close>

theorem snapshot_failed_save_counterexample:
  "snapshot ex_env_full ex_cfg ex_sw ex_world =
     Inl (CaffeError,
          ex_world\<lparr>params := [''cls_score'' \<mapsto> ([[7, 8]], [9]),
                                ''bbox_pred'' \<mapsto> ([[2, 4], [9, 12]], [20, 38])]\<rparr>)
   \<and> params ex_world ''bbox_pred'' = Some ([[1, 2], [3, 4]], [5, 6])
   \<and> params (ex_world\<lparr>params := [''cls_score'' \<mapsto> ([[7, 8]], [9]),
                                ''bbox_pred'' \<mapsto> ([[2, 4], [9, 12]], [20, 38])]\<rparr>) ''bbox_pred''
       \<noteq> params ex_world ''bbox_pred''"
  by (simp add: ex_eval ex_env_full_def)

text \<open>
  C4, amended. With the rescaling branch taken, \<open>snapshot\<close> restores the live parameters
  when the file is written and the call returns; when \<open>net.save\<close> raises, the exception
  leaves \<open>snapshot\<close> and the live parameters of \<open>bbox_pred\<close> stay at their rescaled values
  \<open>weight * stds\<close> and \<open>bias * stds + means\<close>.
\<close>

theorem snapshot_restores_only_on_return:
  assumes "rank sw = 0" and "BBOX_REG cfg" and "BBOX_NORMALIZE_TARGETS cfg"
    and "params w ''bbox_pred'' = Some (weight, bias)"
    and "bbox_stds sw = Some stds" and "bbox_means sw = Some means"
    and "length stds = length weight" and "length bias = length weight"
    and "length means = length weight"
  shows "(writable env (snapshot_filename cfg sw (iter w)) \<longrightarrow>
           (\<exists>w'. snapshot env cfg sw w = Inr (snapshot_filename cfg sw (iter w), w') \<and>
                 params w' = params w)) \<and>
         (\<not> writable env (snapshot_filename cfg sw (iter w)) \<longrightarrow>
           (\<exists>w'. snapshot env cfg sw w = Inl (CaffeError, w') \<and>
                 params w' = (params w)(''bbox_pred'' \<mapsto> rescaled weight bias stds means)))"
  by (simp add: snapshot_scaled [OF assms])

theorem snapshot_restores_only_on_return_witness:
  "\<not> writable ex_env_full (snapshot_filename ex_cfg ex_sw (iter ex_world)) \<and>
   (\<exists>w'. snapshot ex_env_full ex_cfg ex_sw ex_world = Inl (CaffeError, w') \<and>
         params w' = [''cls_score'' \<mapsto> ([[7, 8]], [9]),
                      ''bbox_pred'' \<mapsto> ([[2, 4], [9, 12]], [20, 38])])"
proof -
  have "rank ex_sw = 0" "BBOX_REG ex_cfg" "BBOX_NORMALIZE_TARGETS ex_cfg"
    "params ex_world ''bbox_pred'' = Some ([[1, 2], [3, 4]], [5, 6])"
    "bbox_stds ex_sw = Some [2, 3]" "bbox_means ex_sw = Some [10, 20]"
    "length [2, 3 :: int] = length [[1, 2], [3, 4 :: int]]"
    "length [5, 6 :: int] = length [[1, 2], [3, 4 :: int]]"
    "length [10, 20 :: int] = length [[1, 2], [3, 4 :: int]]"
    by (simp_all add: ex_eval)
  from snapshot_restores_only_on_return [OF this, of ex_env_full]
  have "\<exists>w'. snapshot ex_env_full ex_cfg ex_sw ex_world = Inl (CaffeError, w') \<and>
         params w' = (params ex_world)(''bbox_pred'' \<mapsto>
                        rescaled [[1, 2], [3, 4]] [5, 6] [2, 3] [10, 20])"
    by (simp add: ex_env_full_def ex_env_def)
  moreover have "(params ex_world)(''bbox_pred'' \<mapsto>
                        rescaled [[1, 2], [3, 4]] [5, 6] [2, 3] [10, 20 :: int])
        = [''cls_score'' \<mapsto> ([[7, 8]], [9]), ''bbox_pred'' \<mapsto> ([[2, 4], [9, 12]], [20, 38])]"
    by (simp add: ex_world_def ex_net_def rescaled_def scale_row_def)
  ultimately show ?thesis by (simp add: ex_env_full_def ex_env_def)
qed

lemma path_join_plain:
  "a \<noteq> [] \<Longrightarrow> last a \<noteq> CHR ''/'' \<Longrightarrow> b = [] \<or> hd b \<noteq> CHR ''/'' \<Longrightarrow>
   path_join a b = a @ ''/'' @ b"
  by (auto simp: path_join_def)

text \<open>
  C8. The path returned by \<open>snapshot\<close> is \<open>os.path.join\<close> of the output directory and the file
  name \<open>prefix [_tag] _iter_ N .caffemodel\<close>, where the part \<open>_tag\<close> is present exactly when
  \<open>SNAPSHOT_INFIX\<close> is not empty and \<open>N\<close> is the solver's iteration at the time of the call
  (which Caffe never makes negative) as a plain decimal numeral: digits only, no leading
  zero, value equal to the iteration.
\<close>

theorem snapshot_path_form:
  assumes "snapshot env cfg sw w = Inr (path, w')" and "0 \<le> iter w"
  shows "\<exists>N. path = path_join (output_dir sw)
                     (snapshot_prefix (solver_params sw)
                      @ (if SNAPSHOT_INFIX cfg = [] then [] else ''_'' @ SNAPSHOT_INFIX cfg)
                      @ ''_iter_'' @ N @ ''.caffemodel'')
             \<and> plain_decimal N \<and> int (decimal_value N) = iter w"
proof -
  have "path = snapshot_filename cfg sw (iter w)" by (rule snapshot_path [OF assms(1)])
  then have "path = path_join (output_dir sw)
                     (snapshot_prefix (solver_params sw)
                      @ (if SNAPSHOT_INFIX cfg = [] then [] else ''_'' @ SNAPSHOT_INFIX cfg)
                      @ ''_iter_'' @ format_d (iter w) @ ''.caffemodel'')"
    by (simp add: snapshot_filename_def Let_def)
  with format_d_plain [OF assms(2)] show ?thesis by blast
qed

theorem snapshot_path_form_witness:
  "(\<exists>N. ''out/model_stage2_iter_5000.caffemodel'' =
          path_join ''out'' (''model'' @ ''_stage2'' @ ''_iter_'' @ N @ ''.caffemodel'')
        \<and> plain_decimal N \<and> int (decimal_value N) = 5000)
   \<and> snapshot_filename ex_cfg ex_sw 5000 = ''out/model_iter_5000.caffemodel''"
proof -
  have run: "snapshot ex_env (ex_cfg\<lparr>SNAPSHOT_INFIX := ''stage2''\<rparr>) ex_sw (ex_world\<lparr>iter := 5000\<rparr>) =
     Inr (''out/model_stage2_iter_5000.caffemodel'',
          ex_world\<lparr>iter := 5000, written := [(''out/model_stage2_iter_5000.caffemodel'',
            [''cls_score'' \<mapsto> ([[7, 8]], [9]),
             ''bbox_pred'' \<mapsto> ([[2, 4], [9, 12]], [20, 38])])]\<rparr>)"
    by (simp add: ex_eval)
  have "0 \<le> iter (ex_world\<lparr>iter := 5000\<rparr>)" by simp
  from snapshot_path_form [OF run this]
  have "\<exists>N. ''out/model_stage2_iter_5000.caffemodel'' =
          path_join ''out'' (''model'' @ ''_stage2'' @ ''_iter_'' @ N @ ''.caffemodel'')
        \<and> plain_decimal N \<and> int (decimal_value N) = 5000"
    by (simp add: ex_sw_def ex_param_def ex_cfg_def)
  moreover have "snapshot_filename ex_cfg ex_sw 5000 = ''out/model_iter_5000.caffemodel''"
    by (simp add: ex_eval)
  ultimately show ?thesis by simp
qed

subsection \<open>The training loop\<close>

lemma train_loop_done:
  "\<not> iter w < m \<Longrightarrow> train_loop env cfg sw m (w, l, ps) = Inr (w, l, ps)"
  by (simp add: train_loop.simps)

lemma iter_solver_step: "iter (solver_step env w) = iter w + 1"
  by (simp add: solver_step_def)

lemma train_loop_root:
  assumes "rank sw = 0"
  shows "train_loop env cfg sw m (w, l, ps) = Inr (w', l', ps') \<Longrightarrow> l \<le> iter w \<Longrightarrow>
         iter w' = max (iter w) m \<and>
         ps' = ps @ map (snapshot_filename cfg sw)
                      (filter (\<lambda>k. k mod SNAPSHOT_ITERS cfg = 0) [iter w + 1..m]) \<and>
         (if iter w < m then l' \<le> m \<and> (l' = m \<longleftrightarrow> m mod SNAPSHOT_ITERS cfg = 0) else l' = l)"
proof (induction "nat (m - iter w)" arbitrary: w l ps)
  case 0
  then have "\<not> iter w < m" by simp
  with 0 show ?case by (simp add: train_loop_done)
next
  case (Suc k)
  let ?n = "SNAPSHOT_ITERS cfg"
  let ?w1 = "solver_step env w"
  from Suc.hyps have lt: "iter w < m" by simp
  have k: "k = nat (m - iter ?w1)" using Suc.hyps by (simp add: iter_solver_step)
  have up: "[iter w + 1..m] = (iter w + 1) # [iter w + 1 + 1..m]"
    using lt by (simp add: upto_rec1)
  show ?case
  proof (cases "iter ?w1 mod ?n = 0")
    case True
    from Suc.prems(1) lt assms True obtain path w2
      where s: "snapshot env cfg sw ?w1 = Inr (path, w2)"
        and rec: "train_loop env cfg sw m (w2, iter ?w1, ps @ [path]) = Inr (w', l', ps')"
      by (auto simp: train_loop.simps [of env cfg sw m w] Let_def split: if_splits sum.splits)
    have i2: "iter w2 = iter w + 1" using snapshot_iter [OF s] by (simp add: iter_solver_step)
    have p: "path = snapshot_filename cfg sw (iter w + 1)"
      using snapshot_path [OF s] by (simp add: iter_solver_step)
    have k2: "k = nat (m - iter w2)" using k i2 by (simp add: iter_solver_step)
    have "iter ?w1 \<le> iter w2" by (simp add: i2 iter_solver_step)
    from Suc.hyps(1) [OF k2 rec this]
    have IH: "iter w' = max (iter w2) m"
      "ps' = (ps @ [path]) @ map (snapshot_filename cfg sw)
                      (filter (\<lambda>k. k mod ?n = 0) [iter w2 + 1..m])"
      "if iter w2 < m then l' \<le> m \<and> (l' = m \<longleftrightarrow> m mod ?n = 0) else l' = iter ?w1"
      by simp_all
    from True have m1: "(iter w + 1) mod ?n = 0" by (simp add: iter_solver_step)
    have "iter w' = max (iter w) m" using IH(1) lt i2 by simp
    moreover have "ps' = ps @ map (snapshot_filename cfg sw)
                      (filter (\<lambda>k. k mod ?n = 0) [iter w + 1..m])"
      using IH(2) m1 by (simp add: up i2 p)
    moreover have "l' \<le> m \<and> (l' = m \<longleftrightarrow> m mod ?n = 0)"
    proof (cases "iter w2 < m")
      case True
      with IH(3) show ?thesis by simp
    next
      case False
      with lt i2 have "m = iter w + 1" by simp
      with False IH(3) m1 show ?thesis by (simp add: iter_solver_step)
    qed
    ultimately show ?thesis using lt by simp
  next
    case False
    from Suc.prems(1) lt assms False
    have rec: "train_loop env cfg sw m (?w1, l, ps) = Inr (w', l', ps')"
      by (auto simp: train_loop.simps [of env cfg sw m w] Let_def split: if_splits)
    have "l \<le> iter ?w1" using Suc.prems(2) by (simp add: iter_solver_step)
    from Suc.hyps(1) [OF k rec this]
    have IH: "iter w' = max (iter ?w1) m"
      "ps' = ps @ map (snapshot_filename cfg sw)
                      (filter (\<lambda>k. k mod ?n = 0) [iter ?w1 + 1..m])"
      "if iter ?w1 < m then l' \<le> m \<and> (l' = m \<longleftrightarrow> m mod ?n = 0) else l' = l"
      by simp_all
    from False have m1: "(iter w + 1) mod ?n \<noteq> 0" by (simp add: iter_solver_step)
    have "iter w' = max (iter w) m" using IH(1) lt by (simp add: iter_solver_step)
    moreover have "ps' = ps @ map (snapshot_filename cfg sw)
                      (filter (\<lambda>k. k mod ?n = 0) [iter w + 1..m])"
      using IH(2) m1 by (simp add: up iter_solver_step)
    moreover have "l' \<le> m \<and> (l' = m \<longleftrightarrow> m mod ?n = 0)"
    proof (cases "iter ?w1 < m")
      case True
      with IH(3) show ?thesis by simp
    next
      case False
      with lt have "m = iter w + 1" by (simp add: iter_solver_step)
      with False IH(3) m1 Suc.prems(2) show ?thesis by (simp add: iter_solver_step)
    qed
    ultimately show ?thesis using lt by simp
  qed
qed


lemma train_model_root:
  assumes r: "rank sw = 0" and i: "0 \<le> iter w"
    and t: "train_model env cfg sw m w = Inr (paths, w')"
  shows "paths = map (snapshot_filename cfg sw) (snapshot_iters (SNAPSHOT_ITERS cfg) (iter w) m)
         \<and> iter w' = max (iter w) m"
proof -
  from t obtain w1 l1 ps1 where
    loop: "train_loop env cfg sw m (w, - 1, []) = Inr (w1, l1, ps1)"
    by (auto simp: train_model_def split: sum.splits)
  have "- 1 \<le> iter w" using i by simp
  from train_loop_root [OF r loop this]
  have L: "iter w1 = max (iter w) m"
    "ps1 = map (snapshot_filename cfg sw)
             (filter (\<lambda>k. k mod SNAPSHOT_ITERS cfg = 0) [iter w + 1..m])"
    "if iter w < m then l1 \<le> m \<and> (l1 = m \<longleftrightarrow> m mod SNAPSHOT_ITERS cfg = 0) else l1 = - 1"
    by simp_all
  show ?thesis
  proof (cases "l1 = iter w1")
    case True
    with t loop r have "paths = ps1" "w' = w1" by (simp_all add: train_model_def)
    moreover from True L(1,3) i have "iter w < m \<and> m mod SNAPSHOT_ITERS cfg = 0"
      by (auto split: if_splits)
    ultimately show ?thesis using L(1,2) by (simp add: snapshot_iters_def)
  next
    case False
    with t loop r obtain path where s: "snapshot env cfg sw w1 = Inr (path, w')"
      and p: "paths = ps1 @ [path]"
      by (auto simp: train_model_def split: sum.splits)
    have path: "path = snapshot_filename cfg sw (iter w1)" by (rule snapshot_path [OF s])
    have iw: "iter w' = iter w1" by (rule snapshot_iter [OF s])
    show ?thesis
    proof (cases "iter w < m")
      case True
      with False L(1,3) have "m mod SNAPSHOT_ITERS cfg \<noteq> 0" by auto
      with True L(1,2) p path iw show ?thesis by (simp add: snapshot_iters_def)
    next
      case False
      with L(1,2) p path iw show ?thesis by (simp add: snapshot_iters_def)
    qed
  qed
qed


lemma train_loop_returns:
  assumes d: "display (solver_params sw) \<noteq> 0"
    and s: "rank sw = 0 \<Longrightarrow> SNAPSHOT_ITERS cfg \<noteq> 0 \<and> (\<forall>v. \<exists>r. snapshot env cfg sw v = Inr r)"
  shows "\<exists>w' l' ps'. train_loop env cfg sw m (w, l, ps) = Inr (w', l', ps')"
proof (induction "nat (m - iter w)" arbitrary: w l ps)
  case 0
  then have "\<not> iter w < m" by simp
  then show ?case by (simp add: train_loop_done)
next
  case (Suc k)
  let ?w1 = "solver_step env w"
  from Suc.hyps have lt: "iter w < m" by simp
  have k: "k = nat (m - iter ?w1)" using Suc.hyps by (simp add: iter_solver_step)
  show ?case
  proof (cases "rank sw = 0 \<and> iter ?w1 mod SNAPSHOT_ITERS cfg = 0")
    case True
    with s obtain path w2 where sn: "snapshot env cfg sw ?w1 = Inr (path, w2)"
      by (metis surj_pair)
    have "k = nat (m - iter w2)" using k snapshot_iter [OF sn] by simp
    from Suc.hyps(1) [OF this]
    obtain w' l' ps' where
      "train_loop env cfg sw m (w2, iter ?w1, ps @ [path]) = Inr (w', l', ps')" by blast
    with lt d s True sn show ?thesis
      by (simp add: train_loop.simps [of env cfg sw m w] Let_def)
  next
    case False
    from Suc.hyps(1) [OF k]
    obtain w' l' ps' where "train_loop env cfg sw m (?w1, l, ps) = Inr (w', l', ps')" by blast
    with lt d s False show ?thesis
      by (auto simp: train_loop.simps [of env cfg sw m w] Let_def)
  qed
qed

lemma train_model_returns:
  assumes d: "display (solver_params sw) \<noteq> 0"
    and s: "rank sw = 0 \<Longrightarrow> SNAPSHOT_ITERS cfg \<noteq> 0 \<and> (\<forall>v. \<exists>r. snapshot env cfg sw v = Inr r)"
  shows "\<exists>paths w'. train_model env cfg sw m w = Inr (paths, w')"
proof -
  from train_loop_returns [OF d s]
  obtain w1 l1 ps1 where loop: "train_loop env cfg sw m (w, - 1, []) = Inr (w1, l1, ps1)"
    by blast
  show ?thesis
  proof (cases "rank sw = 0 \<and> l1 \<noteq> iter w1")
    case True
    with s obtain path w2 where "snapshot env cfg sw w1 = Inr (path, w2)"
      by (metis surj_pair)
    with loop True show ?thesis by (simp add: train_model_def)
  next
    case False
    with loop show ?thesis by (auto simp: train_model_def)
  qed
qed

lemma train_model_no_step:
  assumes "rank sw = 0" and "0 \<le> iter w" and "m \<le> iter w"
  shows "train_model env cfg sw m w =
           (case snapshot env cfg sw w of Inl e \<Rightarrow> Inl e | Inr (path, w') \<Rightarrow> Inr ([path], w'))"
  using assms by (simp add: train_model_def train_loop_done split: sum.splits)




lemma snapshot_iters_nonempty: "snapshot_iters n i m \<noteq> []"
  by (cases "m mod n = 0") (auto simp: snapshot_iters_def upto_rec2)

text \<open>
  C10. On rank 0, with the solver's counter never negative, every list that \<open>train_model\<close>
  returns is non-empty. When \<open>max_iters\<close> is at most the current iteration no step is made,
  the final snapshot is taken (the sentinel \<open>-1\<close> differs from the iteration), and the
  result is that single path.
\<close>

theorem train_model_root_nonempty:
  assumes "rank sw = 0" and "0 \<le> iter w"
  shows "(\<forall>model_paths w'. train_model env cfg sw max_iters w = Inr (model_paths, w')
             \<longrightarrow> model_paths \<noteq> [])
         \<and> (max_iters \<le> iter w \<longrightarrow>
              train_model env cfg sw max_iters w =
                (case snapshot env cfg sw w of
                   Inl e \<Rightarrow> Inl e
                 | Inr (path, w') \<Rightarrow> Inr ([path], w')))"
proof (intro conjI allI impI)
  fix model_paths w'
  assume "train_model env cfg sw max_iters w = Inr (model_paths, w')"
  from train_model_root [OF assms this] show "model_paths \<noteq> []"
    by (simp add: snapshot_iters_nonempty)
next
  assume "max_iters \<le> iter w"
  with assms show "train_model env cfg sw max_iters w =
                (case snapshot env cfg sw w of
                   Inl e \<Rightarrow> Inl e
                 | Inr (path, w') \<Rightarrow> Inr ([path], w'))"
    by (rule train_model_no_step)
qed

theorem train_model_root_nonempty_witness:
  "train_model ex_env ex_cfg ex_sw 0 ex_world =
     Inr ([''out/model_iter_0.caffemodel''],
          ex_world\<lparr>written := [(''out/model_iter_0.caffemodel'',
            [''cls_score'' \<mapsto> ([[7, 8]], [9]),
             ''bbox_pred'' \<mapsto> ([[2, 4], [9, 12]], [20, 38])])]\<rparr>)
   \<and> [''out/model_iter_0.caffemodel''] \<noteq> []"
proof -
  have r: "rank ex_sw = 0" by (simp add: ex_sw_def)
  have i: "0 \<le> iter ex_world" by (simp add: ex_world_def)
  have "(0::int) \<le> iter ex_world" by (simp add: ex_world_def)
  with train_model_root_nonempty [OF r i, of ex_env ex_cfg 0]
  have "train_model ex_env ex_cfg ex_sw 0 ex_world =
          (case snapshot ex_env ex_cfg ex_sw ex_world of
             Inl e \<Rightarrow> Inl e
           | Inr (path, w') \<Rightarrow> Inr ([path], w'))"
    by blast
  then show ?thesis by (simp add: ex_eval)
qed

subsection \<open>Workers and the orchestrator\<close>



lemma train_net_root_failed:
  "fst (train_net env cfg proto roidb out_dir gpus 0 bm bs pre m) = Inl e
     \<Longrightarrow> snd (train_net env cfg proto roidb out_dir gpus 0 bm bs pre m) = []"
  by (auto simp: train_net_def split: sum.splits prod.splits if_splits)












end
